theory Spec2Isabelle
  imports Complex_Main "HOL-Library.Sublist" "HOL-Library.AList"
begin

section \<open>The scikit-learn model wrapper (src/model/sklearn.py)\<close>

text \<open>
  A shallow embedding of \<^verbatim>\<open>SklearnModel\<close>: the estimator unwrapper, the three
  inference operations and the attribution engine. The estimator's capabilities, the
  validator of \<^verbatim>\<open>base.py\<close> and the attribution library are collaborators of the
  class; they are fields of the model record, so every theorem holds for all of them.
\<close>

subsection \<open>Errors\<close>

text \<open>
  Every exception of the source is a value. The first three are raised by the
  \<^verbatim>\<open>_check\<close> decorator, \<open>ValidationError\<close> by \<^verbatim>\<open>_validate\<close>, the others are
  Python's own (\<open>ValueError\<close> carries its message).
\<close>

datatype error =
    NotReadyError
  | UnsupportedTaskError
  | UnsupportedModelError
  | ValidationError
  | ValueError string
  | IndexError
  | KeyError
  | AttributeError string

subsection \<open>Strings\<close>

text \<open>Python's \<^verbatim>\<open>needle in haystack\<close> on strings: a contiguous occurrence.\<close>

fun str_in :: "string \<Rightarrow> string \<Rightarrow> bool" where
  "str_in needle [] = (needle = [])"
| "str_in needle (c # cs) = (prefix needle (c # cs) \<or> str_in needle cs)"

text \<open>Python's \<^verbatim>\<open>str\<close> of an integer: decimal digits, a minus sign when negative.\<close>

definition digit_char :: "nat \<Rightarrow> char" where
  "digit_char d = ''0123456789'' ! d"

fun str_of_nat :: "nat \<Rightarrow> string" where
  "str_of_nat n =
     (if n < 10 then [digit_char n] else str_of_nat (n div 10) @ [digit_char (n mod 10)])"

declare str_of_nat.simps [simp del]

definition str_of_int :: "int \<Rightarrow> string" where
  "str_of_int i = (if i < 0 then CHR ''-'' # str_of_nat (nat (- i)) else str_of_nat (nat i))"

subsection \<open>Dictionaries and data frames\<close>

text \<open>
  A Python dict keeps insertion order and one entry per key: an association list where
  \<^const>\<open>AList.update\<close> overwrites the value of a key in place and appends a new key.
  \<open>py_dict\<close> is \<^verbatim>\<open>dict(items)\<close>.
\<close>

definition py_dict :: "('k \<times> 'v) list \<Rightarrow> ('k \<times> 'v) list" where
  "py_dict items = fold (\<lambda>(k, v). AList.update k v) items []"

text \<open>A pandas frame: row labels, column labels and the rows of cells.\<close>

record 'a frame =
  index :: "int list"
  columns :: "string list"
  rows :: "'a list list"

text \<open>
  \<^verbatim>\<open>pd.DataFrame(array, index=index, columns=columns)\<close> on a two-dimensional array:
  pandas raises \<open>ValueError\<close> when the shape of the array is not
  (number of row labels, number of column labels).
\<close>

definition DataFrame :: "'a list list \<Rightarrow> int list \<Rightarrow> string list \<Rightarrow> error + 'a frame" where
  "DataFrame array idx cols =
     (if length array = length idx \<and> list_all (\<lambda>row. length row = length cols) array
      then Inr \<lparr>index = idx, columns = cols, rows = array\<rparr>
      else Inl (ValueError ''Shape of passed values does not match the indices''))"

text \<open>The default row labels of a frame built without \<^verbatim>\<open>index\<close>: 0, 1, ..., n - 1.\<close>

definition range_index :: "nat \<Rightarrow> int list" where
  "range_index n = map int [0..<n]"

text \<open>\<^verbatim>\<open>df.to_dict(orient='records')\<close>: one dict per row, keyed by the column labels.\<close>

definition to_dict_records :: "'a frame \<Rightarrow> (string \<times> 'a) list list" where
  "to_dict_records df = map (\<lambda>row. py_dict (zip (columns df) row)) (rows df)"

text \<open>
  \<^verbatim>\<open>df[names]\<close>: the named columns in the order asked for; \<open>KeyError\<close> when a name
  is not a column of the frame.
\<close>

definition select_columns :: "string list \<Rightarrow> 'a frame \<Rightarrow> error + 'a frame" where
  "select_columns names df =
     (if \<not> list_all (\<lambda>n. n \<in> set (columns df)) names then Inl KeyError
      else case those (map (\<lambda>row. those (map (map_of (zip (columns df) row)) names)) (rows df)) of
             None \<Rightarrow> Inl KeyError
           | Some rs \<Rightarrow> Inr \<lparr>index = index df, columns = names, rows = rs\<rparr>)"

subsection \<open>Requests, estimators and the attribution library\<close>

datatype cell = Num real | Txt string

text \<open>
  What a caller passes as \<^verbatim>\<open>features\<close> or \<^verbatim>\<open>samples\<close>: one record, a list of
  records, or (inside \<^verbatim>\<open>explain\<close>) a frame that was validated already.
\<close>

datatype features =
    OneRecord "(string \<times> cell) list"
  | Records "(string \<times> cell) list list"
  | Table "cell frame"

text \<open>
  \<^verbatim>\<open>classes_\<close> of a fitted classifier is a numpy array, so all its labels have one type.
\<close>

datatype classes = IntClasses "int list" | StrClasses "string list"

text \<open>
  An estimator object as \<^verbatim>\<open>_extract_base_predictor\<close> and \<^verbatim>\<open>_get_class_names\<close>
  read it: \<^verbatim>\<open>type(model).__name__\<close> and three attributes, \<open>None\<close> when the object does
  not have the attribute (reading it raises \<open>AttributeError\<close>). Python's \<^verbatim>\<open>None\<close> is
  the object of type name \<open>NoneType\<close> without attributes.
\<close>

datatype estimator = Estimator
  (type_name: string)
  (steps: "(string \<times> estimator) list option")
  (base_estimator: "estimator option")
  (classes_attr: "classes option")

text \<open>What the estimator's \<^verbatim>\<open>predict\<close> returns for one row.\<close>

datatype prediction = IntLabel int | StrLabel string | Target real

text \<open>The keyword arguments of \<^verbatim>\<open>shap.TreeExplainer\<close>; \<open>data\<close> is absent in the first case.\<close>

record shap_params =
  data :: "cell frame option"
  feature_dependence :: string
  model_output :: string

text \<open>The argument of \<^verbatim>\<open>explainer.shap_values\<close>: the frame, or its \<^verbatim>\<open>.values\<close>.\<close>

datatype shap_input = FrameInput "cell frame" | ArrayInput "cell list list"

text \<open>
  What \<^verbatim>\<open>explainer.shap_values\<close> returns: a Python list of arrays (one per class), one
  array, or an object that is neither.
\<close>

datatype shap_values = ShapList "real list list list" | ShapArray "real list list" | ShapOther

datatype task = Classification | Regression

text \<open>
  The loaded model. \<open>loaded_model\<close> is \<^verbatim>\<open>self._model\<close>; \<open>transform\<close> is \<open>None\<close> when
  \<^verbatim>\<open>hasattr(self._model, 'transform')\<close> is false, and returns a frame otherwise (the
  docstring of \<^verbatim>\<open>preprocess\<close>: the format is that of the input). \<^verbatim>\<open>base.py\<close> is not part of the
  sources: what \<^verbatim>\<open>sklearn.py\<close> reads from it is a field here (\<open>is_ready\<close>,
  \<open>is_explainable\<close>, \<open>task_type\<close>, \<open>is_binary_classification\<close>, \<open>feature_names\<close>,
  \<open>validate\<close>), and so is the class-name entry of the metadata that the docstring of
  \<^verbatim>\<open>predict\<close> speaks of.
\<close>

record sklearn_model =
  is_ready :: bool
  is_explainable :: bool
  task_type :: task
  is_binary_classification :: bool
  feature_names :: "string list"
  metadata_class_names :: "string list option"
  validate :: "features \<Rightarrow> error + cell frame"
  loaded_model :: estimator
  transform :: "(cell frame \<Rightarrow> error + cell frame) option"
  model_predict :: "cell frame \<Rightarrow> error + prediction list"
  model_predict_proba :: "cell frame \<Rightarrow> error + real list list"
  tree_explainer :: "estimator \<Rightarrow> shap_params \<Rightarrow> error + (shap_input \<Rightarrow> error + shap_values)"

text \<open>An attribution result: per class for classification, per record for regression.\<close>

datatype explanation =
    PerClass "(string \<times> (string \<times> real) list list) list"
  | PerRecord "(string \<times> real) list list"

subsection \<open>The decorator and the properties of base.py\<close>

text \<open>
  Modelled from the spec: the decorator \<^verbatim>\<open>_check\<close> of \<^verbatim>\<open>base.py\<close>. Sections 4.3, 4.4
  and 7 of the specification: an operation fails with \<open>NotReadyError\<close> before a model is
  loaded, \<^verbatim>\<open>explainable=True\<close> requires an explainable base predictor
  (\<open>UnsupportedModelError\<close>), and \<^verbatim>\<open>task=...\<close> requires that task
  (\<open>UnsupportedTaskError\<close>).
\<close>

definition check :: "sklearn_model \<Rightarrow> bool \<Rightarrow> task option \<Rightarrow> error + 'a \<Rightarrow> error + 'a" where
  "check m explainable task body =
     (if \<not> is_ready m then Inl NotReadyError
      else if explainable \<and> \<not> is_explainable m then Inl UnsupportedModelError
      else case task of
             None \<Rightarrow> body
           | Some t \<Rightarrow> if task_type m = t then body else Inl UnsupportedTaskError)"

text \<open>
  Modelled from the spec: the property \<^verbatim>\<open>_is_classification\<close> of \<^verbatim>\<open>base.py\<close>; the
  task kind of the artifact is \<open>classification\<close> or \<open>regression\<close>.
\<close>

definition is_classification :: "sklearn_model \<Rightarrow> bool" where
  "is_classification m = (task_type m = Classification)"

subsection \<open>The estimator unwrapper\<close>

text \<open>
  \<^verbatim>\<open>_extract_base_predictor\<close>. \<^verbatim>\<open>model.steps[-1][1]\<close> raises \<open>IndexError\<close> on an
  empty list of steps.
\<close>

function extract_base_predictor :: "estimator \<Rightarrow> error + estimator" where
  "extract_base_predictor model =
     (if type_name model = ''Pipeline'' then
        (case steps model of
           None \<Rightarrow> Inl (AttributeError ''steps'')
         | Some ss \<Rightarrow>
             if ss = [] then Inl IndexError else extract_base_predictor (snd (last ss)))
      else if str_in ''CalibratedClassifier'' (type_name model) then
        (case base_estimator model of
           None \<Rightarrow> Inl (AttributeError ''base_estimator'')
         | Some b \<Rightarrow> extract_base_predictor b)
      else Inr model)"
  by pat_completeness auto
termination
proof (relation "measure size")
  show "wf (measure (size :: estimator \<Rightarrow> nat))" by simp
next
  fix model :: estimator and ss
  assume layer: "steps model = Some ss" "ss \<noteq> []"
  have "size (snd (last xs)) < Suc (size_list (size_prod (\<lambda>_. 0) size) xs)"
    if "xs \<noteq> []" for xs :: "(string \<times> estimator) list"
    using that by (induction xs) (auto simp: less_Suc_eq_le split: prod.splits)
  from this [of ss] layer show "(snd (last ss), model) \<in> measure size"
    by (cases model) auto
next
  fix model :: estimator and b
  assume "base_estimator model = Some b"
  then show "(b, model) \<in> measure size"
    by (cases model) auto
qed

declare extract_base_predictor.simps [simp del]

text \<open>
  Two predicates to state what the unwrapper achieves. A plain estimator is neither a
  pipeline nor a calibration wrapper. An estimator is well nested when every layer that
  the unwrapper goes through has what it reads there: a pipeline has its list of steps
  and the list is not empty, a calibration wrapper has its wrapped estimator.
\<close>

definition is_plain :: "estimator \<Rightarrow> bool" where
  "is_plain e =
     (type_name e \<noteq> ''Pipeline'' \<and> \<not> str_in ''CalibratedClassifier'' (type_name e))"

function well_nested :: "estimator \<Rightarrow> bool" where
  "well_nested model =
     (if type_name model = ''Pipeline'' then
        (case steps model of
           None \<Rightarrow> False
         | Some ss \<Rightarrow> if ss = [] then False else well_nested (snd (last ss)))
      else if str_in ''CalibratedClassifier'' (type_name model) then
        (case base_estimator model of None \<Rightarrow> False | Some b \<Rightarrow> well_nested b)
      else True)"
  by pat_completeness auto
termination
proof (relation "measure size")
  show "wf (measure (size :: estimator \<Rightarrow> nat))" by simp
next
  fix model :: estimator and ss
  assume layer: "steps model = Some ss" "ss \<noteq> []"
  have "size (snd (last xs)) < Suc (size_list (size_prod (\<lambda>_. 0) size) xs)"
    if "xs \<noteq> []" for xs :: "(string \<times> estimator) list"
    using that by (induction xs) (auto simp: less_Suc_eq_le split: prod.splits)
  from this [of ss] layer show "(snd (last ss), model) \<in> measure size"
    by (cases model) auto
next
  fix model :: estimator and b
  assume "base_estimator model = Some b"
  then show "(b, model) \<in> measure size"
    by (cases model) auto
qed

declare well_nested.simps [simp del]

text \<open>\<^verbatim>\<open>_get_predictor\<close> and \<^verbatim>\<open>_get_class_names\<close>; \<^verbatim>\<open>np.array(classes, str)\<close>.\<close>

definition get_predictor :: "sklearn_model \<Rightarrow> error + estimator" where
  "get_predictor m = check m False None (extract_base_predictor (loaded_model m))"

fun class_strings :: "classes \<Rightarrow> string list" where
  "class_strings (IntClasses cs) = map str_of_int cs"
| "class_strings (StrClasses cs) = cs"

definition get_class_names :: "sklearn_model \<Rightarrow> error + string list" where
  "get_class_names m =
     check m False (Some Classification)
       (case get_predictor m of
          Inl e \<Rightarrow> Inl e
        | Inr predictor \<Rightarrow>
            (case classes_attr predictor of
               None \<Rightarrow> Inl (AttributeError ''classes_'')
             | Some cs \<Rightarrow> Inr (class_strings cs)))"

text \<open>
  Modelled from the spec: \<^verbatim>\<open>_get_predictor_type\<close> of \<^verbatim>\<open>base.py\<close>. Section 4.4, step 3
  of the specification: the family of the base predictor, which the source compares with
  the class names \<open>LGBMClassifier\<close> and \<open>LGBMRegressor\<close>.
\<close>

definition get_predictor_type :: "sklearn_model \<Rightarrow> error + string" where
  "get_predictor_type m =
     (case get_predictor m of Inl e \<Rightarrow> Inl e | Inr predictor \<Rightarrow> Inr (type_name predictor))"

subsection \<open>Inference operations\<close>

definition preprocess :: "sklearn_model \<Rightarrow> features \<Rightarrow> error + cell frame" where
  "preprocess m features =
     check m False None
       (case validate m features of
          Inl e \<Rightarrow> Inl e
        | Inr input \<Rightarrow> (case transform m of Some t \<Rightarrow> t input | None \<Rightarrow> Inr input))"

definition predict :: "sklearn_model \<Rightarrow> features \<Rightarrow> error + prediction list" where
  "predict m features =
     check m False None
       (case validate m features of
          Inl e \<Rightarrow> Inl e
        | Inr input \<Rightarrow> model_predict m input)"

definition predict_proba :: "sklearn_model \<Rightarrow> features \<Rightarrow> error + (string \<times> real) list list" where
  "predict_proba m features =
     check m False (Some Classification)
       (case validate m features of
          Inl e \<Rightarrow> Inl e
        | Inr input \<Rightarrow>
            (case model_predict_proba m input of
               Inl e \<Rightarrow> Inl e
             | Inr prediction \<Rightarrow>
                 (case get_class_names m of
                    Inl e \<Rightarrow> Inl e
                  | Inr class_names \<Rightarrow>
                      (case DataFrame prediction (range_index (length prediction)) class_names of
                         Inl e \<Rightarrow> Inl e
                       | Inr df \<Rightarrow> Inr (to_dict_records df)))))"

subsection \<open>The attribution engine\<close>

text \<open>Lines 182 to 190 of \<^verbatim>\<open>explain\<close>: the parameters of the explainer.\<close>

definition explain_params :: "sklearn_model \<Rightarrow> features option \<Rightarrow> error + shap_params" where
  "explain_params m samples =
     (case samples of
        None \<Rightarrow>
          Inr \<lparr>data = None, feature_dependence = ''tree_path_dependent'',
               model_output = ''margin''\<rparr>
      | Some s \<Rightarrow>
          (case validate m s of
             Inl e \<Rightarrow> Inl e
           | Inr validated \<Rightarrow>
               (case preprocess m (Table validated) of
                  Inl e \<Rightarrow> Inl e
                | Inr background \<Rightarrow>
                    Inr \<lparr>data = Some background, feature_dependence = ''independent'',
                         model_output = ''probability''\<rparr>)))"

text \<open>The class attribute \<^verbatim>\<open>_explainable_models\<close>: the families \<^verbatim>\<open>explain\<close> serves.\<close>

definition explainable_models :: "string list" where
  "explainable_models =
     [''DecisionTreeClassifier'', ''DecisionTreeRegressor'',
      ''RandomForestClassifier'', ''RandomForestRegressor'',
      ''XGBClassifier'', ''XGBRegressor'', ''Booster'',
      ''CatBoostClassifier'', ''CatBoostRegressor'',
      ''LGBMClassifier'', ''LGBMRegressor'']"

text \<open>Lines 198 and 199: the frame for the LightGBM predictors, its values otherwise.\<close>

definition use_pandas :: "string \<Rightarrow> bool" where
  "use_pandas predictor_type =
     list_ex (\<lambda>c. str_in c predictor_type) [''LGBMClassifier'', ''LGBMRegressor'']"

definition explainer_input :: "string \<Rightarrow> cell frame \<Rightarrow> shap_input" where
  "explainer_input predictor_type input_data =
     (if use_pandas predictor_type then FrameInput input_data
      else ArrayInput (rows input_data))"

text \<open>
  Lines 180 to 199: from the request to the raw output of the explainer, in the order
  of the source. The result is the preprocessed frame and the raw output.
\<close>

definition compute_shap_values ::
  "sklearn_model \<Rightarrow> features \<Rightarrow> features option \<Rightarrow> error + (cell frame \<times> shap_values)" where
  "compute_shap_values m features samples =
     (case preprocess m features of
        Inl e \<Rightarrow> Inl e
      | Inr preprocessed \<Rightarrow>
     (case explain_params m samples of
        Inl e \<Rightarrow> Inl e
      | Inr params \<Rightarrow>
     (case get_predictor m of
        Inl e \<Rightarrow> Inl e
      | Inr predictor \<Rightarrow>
     (case tree_explainer m predictor params of
        Inl e \<Rightarrow> Inl e
      | Inr explainer \<Rightarrow>
     (case select_columns (feature_names m) preprocessed of
        Inl e \<Rightarrow> Inl e
      | Inr input_data \<Rightarrow>
     (case get_predictor_type m of
        Inl e \<Rightarrow> Inl e
      | Inr predictor_type \<Rightarrow>
     (case explainer (explainer_input predictor_type input_data) of
        Inl e \<Rightarrow> Inl e
      | Inr raw \<Rightarrow> Inr (preprocessed, raw))))))))"

text \<open>\<^verbatim>\<open>shap_values * k\<close> on an array: every entry times the scalar.\<close>

definition array_times :: "real list list \<Rightarrow> real \<Rightarrow> real list list" where
  "array_times a k = map (map (\<lambda>x. x * k)) a"

text \<open>
  Lines 218 to 221: the values of class number \<open>i\<close>. The flag \<open>process_shap_values\<close> is
  set for an array and cleared for a list, so the last equation is never reached from
  \<open>format_output\<close>. \<^verbatim>\<open>shap_values[i]\<close> raises \<open>IndexError\<close> past the end of the list.
\<close>

fun class_values :: "bool \<Rightarrow> shap_values \<Rightarrow> nat \<Rightarrow> error + real list list" where
  "class_values True (ShapArray a) i = Inr (array_times a (if i = 0 then - 1 else 1))"
| "class_values False (ShapList arrays) i =
     (if i < length arrays then Inr (arrays ! i) else Inl IndexError)"
| "class_values _ _ _ = Inl (ValueError ''Unknown objet class for shap_values variable'')"

text \<open>Lines 217 to 223: the loop over \<^verbatim>\<open>enumerate(class_names)\<close>, filling \<open>result\<close>.\<close>

fun format_classes ::
  "bool \<Rightarrow> shap_values \<Rightarrow> int list \<Rightarrow> string list \<Rightarrow> nat \<Rightarrow> string list \<Rightarrow>
   (string \<times> (string \<times> real) list list) list \<Rightarrow>
   error + (string \<times> (string \<times> real) list list) list" where
  "format_classes process_shap_values raw idx colnames i [] result = Inr result"
| "format_classes process_shap_values raw idx colnames i (c # cs) result =
     (case class_values process_shap_values raw i of
        Inl e \<Rightarrow> Inl e
      | Inr vals \<Rightarrow>
          (case DataFrame vals idx colnames of
             Inl e \<Rightarrow> Inl e
           | Inr df \<Rightarrow>
               format_classes process_shap_values raw idx colnames (Suc i) cs
                 (AList.update c (to_dict_records df) result)))"

text \<open>\<^verbatim>\<open>isinstance(shap_values, list)\<close> and \<^verbatim>\<open>isinstance(shap_values, np.ndarray)\<close>.\<close>

fun isinstance_list :: "shap_values \<Rightarrow> bool" where
  "isinstance_list (ShapList arrays) = True"
| "isinstance_list _ = False"

fun isinstance_ndarray :: "shap_values \<Rightarrow> bool" where
  "isinstance_ndarray (ShapArray a) = True"
| "isinstance_ndarray _ = False"

text \<open>
  Lines 202 to 227. In the regression branch the raw output goes to
  \<^verbatim>\<open>pd.DataFrame\<close> as it is; the frame constructor is modelled on arrays only, and
  anything else is refused with its \<open>ValueError\<close>.
\<close>

definition format_output ::
  "sklearn_model \<Rightarrow> int list \<Rightarrow> string list \<Rightarrow> shap_values \<Rightarrow> error + explanation" where
  "format_output m idx colnames raw =
     (if is_classification m then
        (case get_class_names m of
           Inl e \<Rightarrow> Inl e
         | Inr class_names \<Rightarrow>
             if isinstance_list raw then
               map_sum id PerClass (format_classes False raw idx colnames 0 class_names [])
             else if isinstance_ndarray raw \<and> is_binary_classification m then
               map_sum id PerClass (format_classes True raw idx colnames 0 class_names [])
             else Inl (ValueError ''Unknown objet class for shap_values variable''))
      else
        (case raw of
           ShapArray a \<Rightarrow> map_sum id (PerRecord \<circ> to_dict_records) (DataFrame a idx colnames)
         | _ \<Rightarrow> Inl (ValueError ''Shape of passed values does not match the indices'')))"

text \<open>\<^verbatim>\<open>explain\<close>, under \<^verbatim>\<open>@_check(explainable=True)\<close>.\<close>

definition explain :: "sklearn_model \<Rightarrow> features \<Rightarrow> features option \<Rightarrow> error + explanation" where
  "explain m features samples =
     check m True None
       (case compute_shap_values m features samples of
          Inl e \<Rightarrow> Inl e
        | Inr (preprocessed, raw) \<Rightarrow>
            format_output m (index preprocessed) (feature_names m) raw)"

subsection \<open>Example artifacts\<close>

text \<open>
  A forest trained on the labels \<open>no\<close> and \<open>yes\<close>, the same forest under a
  calibration wrapper at the end of a pipeline, and a pipeline without steps.
\<close>

definition example_forest :: estimator where
  "example_forest =
     Estimator ''RandomForestClassifier'' None None (Some (StrClasses [''no'', ''yes'']))"

definition example_pipeline :: estimator where
  "example_pipeline =
     Estimator ''Pipeline''
       (Some [(''scale'', Estimator ''StandardScaler'' None None None),
              (''clf'', Estimator ''CalibratedClassifierCV'' None (Some example_forest) None)])
       None None"

definition empty_pipeline :: estimator where
  "empty_pipeline = Estimator ''Pipeline'' (Some []) None None"

text \<open>
  The scenario of the specification: the schema \<open>age\<close>, \<open>color\<close>, a validator for it,
  and a loaded binary classifier whose explainer returns one shared array, with one
  record and a batch of two.
\<close>

definition example_schema :: "string list" where
  "example_schema = [''age'', ''color'']"

definition example_validate :: "features \<Rightarrow> error + cell frame" where
  "example_validate fs =
     (case fs of
        OneRecord r \<Rightarrow>
          (case those (map (map_of r) example_schema) of
             None \<Rightarrow> Inl ValidationError
           | Some row \<Rightarrow> Inr \<lparr>index = [0], columns = example_schema, rows = [row]\<rparr>)
      | Records rs \<Rightarrow>
          (case those (map (\<lambda>r. those (map (map_of r) example_schema)) rs) of
             None \<Rightarrow> Inl ValidationError
           | Some table \<Rightarrow>
               Inr \<lparr>index = range_index (length table), columns = example_schema,
                    rows = table\<rparr>)
      | Table t \<Rightarrow> Inr t)"

definition input_rows :: "shap_input \<Rightarrow> cell list list" where
  "input_rows inp = (case inp of FrameInput f \<Rightarrow> rows f | ArrayInput a \<Rightarrow> a)"

definition example_model :: sklearn_model where
  "example_model =
     \<lparr>is_ready = True, is_explainable = True, task_type = Classification,
      is_binary_classification = True, feature_names = example_schema,
      metadata_class_names = None, validate = example_validate,
      loaded_model = example_pipeline, transform = None,
      model_predict = (\<lambda>t. Inr (map (\<lambda>_. StrLabel ''yes'') (rows t))),
      model_predict_proba = (\<lambda>t. Inr (map (\<lambda>_. [3 / 10, 7 / 10]) (rows t))),
      tree_explainer = (\<lambda>predictor params. Inr (\<lambda>inp.
         Inr (ShapArray (map (\<lambda>_. [1 / 10, 1 / 20]) (input_rows inp)))))\<rparr>"

definition example_record :: features where
  "example_record = OneRecord [(''color'', Txt ''red''), (''age'', Num 30)]"

definition example_batch :: features where
  "example_batch =
     Records [[(''age'', Num 30), (''color'', Txt ''red'')],
              [(''age'', Num 41), (''color'', Txt ''blue'')]]"

text \<open>
  The same model as a regressor, as a classifier of three classes, with a predictor
  whose classes are numbers, with a LightGBM predictor, and with class names in the
  metadata over an estimator that predicts numbers.
\<close>

definition example_regressor :: sklearn_model where
  "example_regressor =
     example_model
       \<lparr>task_type := Regression, is_binary_classification := False,
        loaded_model := Estimator ''RandomForestRegressor'' None None None\<rparr>"

definition example_multiclass :: sklearn_model where
  "example_multiclass =
     example_model
       \<lparr>is_binary_classification := False,
        loaded_model := Estimator ''LGBMClassifier'' None None (Some (IntClasses [0, 1, 2]))\<rparr>"

definition example_numeric :: sklearn_model where
  "example_numeric =
     example_model
       \<lparr>loaded_model := Estimator ''XGBClassifier'' None None (Some (IntClasses [0, 1]))\<rparr>"

definition example_lgbm :: sklearn_model where
  "example_lgbm =
     example_model
       \<lparr>loaded_model := Estimator ''LGBMClassifier'' None None (Some (IntClasses [0, 1]))\<rparr>"

definition example_int_labels :: sklearn_model where
  "example_int_labels =
     example_numeric
       \<lparr>metadata_class_names := Some [''no'', ''yes''],
        model_predict := (\<lambda>t. Inr (map (\<lambda>_. IntLabel 1) (rows t)))\<rparr>"

text \<open>
  The binary classifier again with an explainer that returns a list of one array, one that
  returns a list of three arrays, and one whose output depends on the parameters it was
  built with.
\<close>

definition example_short_list :: sklearn_model where
  "example_short_list =
     example_model
       \<lparr>tree_explainer := (\<lambda>predictor params. Inr (\<lambda>inp.
          Inr (ShapList [map (\<lambda>_. [1 / 10, 1 / 20]) (input_rows inp)])))\<rparr>"

definition example_long_list :: sklearn_model where
  "example_long_list =
     example_model
       \<lparr>tree_explainer := (\<lambda>predictor params. Inr (\<lambda>inp.
          Inr (ShapList [map (\<lambda>_. [- (1 / 10), - (1 / 20)]) (input_rows inp),
                         map (\<lambda>_. [1 / 10, 1 / 20]) (input_rows inp),
                         map (\<lambda>_. [7, 9]) (input_rows inp)])))\<rparr>"

definition example_two_outputs :: sklearn_model where
  "example_two_outputs =
     example_model
       \<lparr>tree_explainer := (\<lambda>predictor params. Inr (\<lambda>inp.
          Inr (ShapArray
                 (map (\<lambda>_. if model_output params = ''probability'' \<and> data params \<noteq> None
                            then [1 / 5, 1 / 10] else [1 / 10, 1 / 20])
                    (input_rows inp)))))\<rparr>"

subsection \<open>Predicates of the statements\<close>

text \<open>
  Every mapping of a sequence has exactly the given keys, in the given order.
\<close>

definition keyed_by :: "string list \<Rightarrow> (string \<times> 'a) list list \<Rightarrow> bool" where
  "keyed_by names recs = list_all (\<lambda>d. map fst d = names) recs"

text \<open>
  The class list of a predictor has no label twice.
\<close>

fun distinct_classes :: "classes \<Rightarrow> bool" where
  "distinct_classes (IntClasses cs) = distinct cs"
| "distinct_classes (StrClasses cs) = distinct cs"

section \<open>Properties\<close>

text \<open>
  The definitions to unfold when an operation is run on an example.
\<close>

lemmas model_defs =
  explain_def check_def compute_shap_values_def preprocess_def explain_params_def
  get_predictor_def get_predictor_type_def get_class_names_def select_columns_def
  explainer_input_def use_pandas_def format_output_def is_classification_def
  DataFrame_def to_dict_records_def py_dict_def array_times_def range_index_def
  predict_def predict_proba_def

lemmas example_defs =
  example_model_def example_validate_def example_schema_def example_record_def
  example_pipeline_def example_forest_def input_rows_def

subsection \<open>The estimator unwrapper\<close>

lemma extract_plain: "is_plain e \<Longrightarrow> extract_base_predictor e = Inr e"
  by (simp add: is_plain_def extract_base_predictor.simps)

lemma extract_result_plain: "extract_base_predictor m = Inr p \<Longrightarrow> is_plain p"
proof (induction m rule: extract_base_predictor.induct)
  case (1 model)
  then show ?case
    by (subst (asm) (3) extract_base_predictor.simps)
       (auto simp: is_plain_def split: if_splits option.splits)
qed

lemma extract_well_nested: "(\<exists>p. extract_base_predictor m = Inr p) = well_nested m"
proof (induction m rule: extract_base_predictor.induct)
  case (1 model)
  show ?case
    apply (subst extract_base_predictor.simps)
    apply (subst well_nested.simps)
    using 1 by (auto split: option.splits)
qed

lemma extract_errors:
  "extract_base_predictor m = Inl e \<Longrightarrow>
   e = IndexError \<or> e = AttributeError ''steps'' \<or> e = AttributeError ''base_estimator''"
proof (induction m rule: extract_base_predictor.induct)
  case (1 model)
  then show ?case
    by (subst (asm) (3) extract_base_predictor.simps)
       (auto split: if_splits option.splits)
qed

text \<open>
  Claim C5. The unwrapper is a total function: on every estimator it returns a value.
  On a well nested estimator, whatever the number of layers, the value is a plain
  estimator, neither a pipeline nor a calibration wrapper. Otherwise it is an error and
  never an estimator; in particular a pipeline with zero steps fails with \<open>IndexError\<close>.
\<close>

theorem extract_base_predictor_terminates:
  "(if well_nested m
    then \<exists>p. extract_base_predictor m = Inr p \<and> is_plain p
    else \<exists>e. extract_base_predictor m = Inl e \<and>
           (e = IndexError \<or> e = AttributeError ''steps'' \<or>
            e = AttributeError ''base_estimator''))
   \<and> (type_name m = ''Pipeline'' \<and> steps m = Some [] \<longrightarrow>
        extract_base_predictor m = Inl IndexError)"
proof (intro conjI)
  show "if well_nested m
    then \<exists>p. extract_base_predictor m = Inr p \<and> is_plain p
    else \<exists>e. extract_base_predictor m = Inl e \<and>
           (e = IndexError \<or> e = AttributeError ''steps'' \<or>
            e = AttributeError ''base_estimator'')"
  proof (cases "well_nested m")
    case True
    then obtain p where "extract_base_predictor m = Inr p"
      using extract_well_nested [of m] by blast
    with True show ?thesis
      using extract_result_plain by auto
  next
    case False
    then have "\<nexists>p. extract_base_predictor m = Inr p"
      using extract_well_nested [of m] by simp
    then obtain e where e: "extract_base_predictor m = Inl e"
      by (cases "extract_base_predictor m") auto
    with False show ?thesis
      using extract_errors [OF e] by simp
  qed
next
  show "type_name m = ''Pipeline'' \<and> steps m = Some [] \<longrightarrow>
        extract_base_predictor m = Inl IndexError"
    by (simp add: extract_base_predictor.simps)
qed

theorem extract_base_predictor_terminates_witness:
  "well_nested example_pipeline
   \<and> extract_base_predictor example_pipeline = Inr example_forest
   \<and> is_plain example_forest
   \<and> \<not> well_nested empty_pipeline
   \<and> extract_base_predictor empty_pipeline = Inl IndexError"
proof -
  have wn: "well_nested example_pipeline"
    by (simp add: example_pipeline_def example_forest_def well_nested.simps)
  have run: "extract_base_predictor example_pipeline = Inr example_forest"
    by (simp add: example_pipeline_def example_forest_def extract_base_predictor.simps)
  have empty: "type_name empty_pipeline = ''Pipeline'' \<and> steps empty_pipeline = Some []"
    by (simp add: empty_pipeline_def)
  have nwn: "\<not> well_nested empty_pipeline"
    by (simp add: empty_pipeline_def well_nested.simps)
  show ?thesis
    using extract_base_predictor_terminates [of example_pipeline]
      extract_base_predictor_terminates [of empty_pipeline] wn run empty nwn
    by auto
qed

text \<open>
  Claim C6. Unwrapping twice is unwrapping once, errors included, and a plain estimator
  is returned as it is.
\<close>

theorem extract_base_predictor_idempotent:
  "(case extract_base_predictor m of Inl e \<Rightarrow> Inl e | Inr p \<Rightarrow> extract_base_predictor p) =
     extract_base_predictor m
   \<and> (is_plain m \<longrightarrow> extract_base_predictor m = Inr m)"
proof (intro conjI impI)
  show "(case extract_base_predictor m of Inl e \<Rightarrow> Inl e | Inr p \<Rightarrow> extract_base_predictor p) =
     extract_base_predictor m"
  proof (cases "extract_base_predictor m")
    case (Inl e)
    then show ?thesis by simp
  next
    case (Inr p)
    then have "is_plain p" by (rule extract_result_plain)
    then have "extract_base_predictor p = Inr p" by (rule extract_plain)
    with Inr show ?thesis by simp
  qed
next
  assume "is_plain m"
  then show "extract_base_predictor m = Inr m" by (rule extract_plain)
qed

theorem extract_base_predictor_idempotent_witness:
  "is_plain example_forest
   \<and> extract_base_predictor example_forest = Inr example_forest
   \<and> extract_base_predictor example_pipeline = Inr example_forest
   \<and> (case extract_base_predictor example_pipeline of
         Inl e \<Rightarrow> Inl e | Inr p \<Rightarrow> extract_base_predictor p) = Inr example_forest"
proof -
  have plain: "is_plain example_forest"
    by (simp add: is_plain_def example_forest_def)
  have run: "extract_base_predictor example_pipeline = Inr example_forest"
    by (simp add: example_pipeline_def example_forest_def extract_base_predictor.simps)
  show ?thesis
    using extract_base_predictor_idempotent [of example_forest]
      extract_base_predictor_idempotent [of example_pipeline] plain run
    by simp
qed

subsection \<open>Rendering integers\<close>

text \<open>
  Different integers have different decimal renderings, so distinct classes keep
  distinct names.
\<close>

lemma digit_char_inj: "a < 10 \<Longrightarrow> b < 10 \<Longrightarrow> digit_char a = digit_char b \<Longrightarrow> a = b"
proof -
  have "distinct ''0123456789''" by simp
  then show "a < 10 \<Longrightarrow> b < 10 \<Longrightarrow> digit_char a = digit_char b \<Longrightarrow> a = b"
    unfolding digit_char_def by (subst (asm) nth_eq_iff_index_eq) simp_all
qed

lemma digit_char_digit: "d < 10 \<Longrightarrow> digit_char d \<in> set ''0123456789''"
  unfolding digit_char_def by (rule nth_mem) simp

lemma str_of_nat_digits: "set (str_of_nat n) \<subseteq> set ''0123456789''"
proof (induction n rule: str_of_nat.induct)
  case (1 n)
  show ?case
  proof (cases "n < 10")
    case True
    then show ?thesis
      using digit_char_digit [of n] by (subst str_of_nat.simps) simp
  next
    case False
    with 1 digit_char_digit [of "n mod 10"] show ?thesis
      by (subst str_of_nat.simps) simp
  qed
qed

lemma str_of_nat_not_empty: "str_of_nat n \<noteq> []"
  by (subst str_of_nat.simps) simp

lemma str_of_nat_inj: "str_of_nat n = str_of_nat k \<Longrightarrow> n = k"
proof (induction n arbitrary: k rule: str_of_nat.induct)
  case (1 n)
  have short: "str_of_nat j = [digit_char j]" if "j < 10" for j
    using that by (subst str_of_nat.simps) simp
  have long: "str_of_nat j = str_of_nat (j div 10) @ [digit_char (j mod 10)]"
    if "\<not> j < 10" for j
    using that by (subst str_of_nat.simps) simp
  show ?case
  proof (cases "n < 10")
    case n: True
    show ?thesis
    proof (cases "k < 10")
      case True
      with n "1.prems" show ?thesis
        by (simp add: short digit_char_inj)
    next
      case False
      with n "1.prems" show ?thesis
        using str_of_nat_not_empty [of "k div 10"] by (simp add: short long)
    qed
  next
    case n: False
    show ?thesis
    proof (cases "k < 10")
      case True
      with n "1.prems" show ?thesis
        using str_of_nat_not_empty [of "n div 10"] by (simp add: short long)
    next
      case False
      with n "1.prems" have pre: "str_of_nat (n div 10) = str_of_nat (k div 10)"
        and dig: "digit_char (n mod 10) = digit_char (k mod 10)"
        by (simp_all add: long)
      from "1.IH" [OF n pre] have "n div 10 = k div 10" .
      moreover from dig have "n mod 10 = k mod 10"
        by (rule digit_char_inj [rotated 2]) simp_all
      ultimately show ?thesis
        by (metis div_mult_mod_eq)
    qed
  qed
qed

lemma str_of_int_inj: "str_of_int i = str_of_int j \<Longrightarrow> i = j"
proof -
  have no_minus: "CHR ''-'' # s \<noteq> str_of_nat n" for s n
  proof
    assume "CHR ''-'' # s = str_of_nat n"
    then have "CHR ''-'' \<in> set (str_of_nat n)" by (metis list.set_intros(1))
    with str_of_nat_digits [of n] show False by auto
  qed
  assume eq: "str_of_int i = str_of_int j"
  show "i = j"
  proof (cases "i < 0")
    case i: True
    show ?thesis
    proof (cases "j < 0")
      case True
      with i eq have "nat (- i) = nat (- j)"
        by (simp add: str_of_int_def str_of_nat_inj)
      with i True show ?thesis by simp
    next
      case False
      with i eq no_minus show ?thesis by (simp add: str_of_int_def)
    qed
  next
    case i: False
    show ?thesis
    proof (cases "j < 0")
      case True
      with i eq no_minus [of "str_of_nat (nat (- j))" "nat i"] show ?thesis
        by (simp add: str_of_int_def)
    next
      case False
      with i eq have "nat i = nat j"
        by (simp add: str_of_int_def str_of_nat_inj)
      with i False show ?thesis by simp
    qed
  qed
qed

lemma distinct_class_strings: "distinct_classes cs \<Longrightarrow> distinct (class_strings cs)"
  by (cases cs) (auto simp: distinct_map intro!: inj_onI dest: str_of_int_inj)

subsection \<open>Dictionaries and frames\<close>

lemma update_fresh: "k \<notin> fst ` set al \<Longrightarrow> AList.update k v al = al @ [(k, v)]"
  by (induction al) auto

lemma fold_update_distinct:
  "distinct (map fst (acc @ items)) \<Longrightarrow>
   fold (\<lambda>(k, v). AList.update k v) items acc = acc @ items"
proof (induction items arbitrary: acc)
  case Nil
  then show ?case by simp
next
  case (Cons kv items)
  obtain k v where kv: "kv = (k, v)" by (cases kv)
  from Cons.prems kv have fresh: "k \<notin> fst ` set acc" by auto
  from Cons.prems kv have "distinct (map fst ((acc @ [(k, v)]) @ items))" by auto
  from Cons.IH [OF this] show ?case
    by (simp add: kv update_fresh [OF fresh])
qed

lemma py_dict_distinct: "distinct (map fst items) \<Longrightarrow> py_dict items = items"
  using fold_update_distinct [of "[]" items] by (simp add: py_dict_def)

lemma py_dict_zip_keys:
  "distinct cols \<Longrightarrow> length row = length cols \<Longrightarrow> map fst (py_dict (zip cols row)) = cols"
  by (simp add: py_dict_distinct distinct_zipI1)

lemma fold_update_keys:
  "fst ` set (fold (\<lambda>(k, v). AList.update k v) items acc) = fst ` set items \<union> fst ` set acc"
  by (induction items arbitrary: acc) (auto simp: dom_update split: prod.splits)

lemma py_dict_key_set: "fst ` set (py_dict items) = fst ` set items"
  by (simp add: py_dict_def fold_update_keys)

lemma update_apsnd:
  "AList.update k (f v) (map (apsnd f) al) = map (apsnd f) (AList.update k v al)"
  by (induction al) auto

lemma fold_update_apsnd:
  "fold (\<lambda>(k, v). AList.update k v) (map (apsnd f) items) (map (apsnd f) acc) =
   map (apsnd f) (fold (\<lambda>(k, v). AList.update k v) items acc)"
proof (induction items arbitrary: acc)
  case Nil
  then show ?case by simp
next
  case (Cons kv items)
  obtain k v where kv: "kv = (k, v)" by (cases kv)
  show ?case
    using Cons.IH [of "AList.update k v acc"] by (simp add: kv update_apsnd)
qed

lemma py_dict_zip_map:
  "py_dict (zip cols (map f row)) = map (apsnd f) (py_dict (zip cols row))"
proof -
  have "zip cols (map f row) = map (apsnd f) (zip cols row)"
    by (simp add: zip_map2 apsnd_def map_prod_def)
  then show ?thesis
    using fold_update_apsnd [of f "zip cols row" "[]"] by (simp add: py_dict_def)
qed

lemma set_update_subset: "set (AList.update k v al) \<subseteq> insert (k, v) (set al)"
  by (induction al) auto

lemma list_all_update:
  "P (k, v) \<Longrightarrow> list_all P al \<Longrightarrow> list_all P (AList.update k v al)"
  using set_update_subset [of k v al] by (auto simp: list_all_iff)

lemma DataFrame_Inr:
  "DataFrame a idx cols = Inr df \<Longrightarrow>
   df = \<lparr>index = idx, columns = cols, rows = a\<rparr> \<and> length a = length idx \<and>
   list_all (\<lambda>row. length row = length cols) a"
  by (auto simp: DataFrame_def split: if_splits)

lemma records_of_DataFrame:
  assumes "distinct cols" and "DataFrame a idx cols = Inr df"
  shows "length (to_dict_records df) = length idx \<and> keyed_by cols (to_dict_records df)"
proof -
  from DataFrame_Inr [OF assms(2)]
  have df: "df = \<lparr>index = idx, columns = cols, rows = a\<rparr>"
    and len: "length a = length idx"
    and shape: "list_all (\<lambda>row. length row = length cols) a"
    by simp_all
  from shape assms(1) have "list_all (\<lambda>row. map fst (py_dict (zip cols row)) = cols) a"
    by (simp add: list_all_iff py_dict_zip_keys)
  with len df show ?thesis
    by (simp add: to_dict_records_def keyed_by_def list_all_iff)
qed

lemma records_key_sets:
  fixes a :: "'a list list"
  assumes "DataFrame a idx cols = Inr df"
  shows "list_all (\<lambda>d. set (map fst d) = set cols) (to_dict_records df)"
proof -
  from DataFrame_Inr [OF assms]
  have df: "df = \<lparr>index = idx, columns = cols, rows = a\<rparr>"
    and shape: "list_all (\<lambda>row. length row = length cols) a"
    by simp_all
  have "set (map fst (py_dict (zip cols row))) = set cols" if "length row = length cols"
    for row :: "'a list"
    using that py_dict_key_set [of "zip cols row"] map_fst_zip [of cols row]
    by (simp flip: set_map)
  with shape df show ?thesis
    by (auto simp: to_dict_records_def list_all_iff)
qed

lemma records_array_times:
  "to_dict_records \<lparr>index = idx, columns = cols, rows = array_times a k\<rparr> =
   map (map (apsnd (\<lambda>x. x * k))) (to_dict_records \<lparr>index = idx, columns = cols, rows = a\<rparr>)"
  by (simp add: to_dict_records_def array_times_def py_dict_zip_map comp_def)

lemma array_times_one: "array_times a 1 = a"
  by (simp add: array_times_def)

subsection \<open>What a successful call went through\<close>

lemma map_sum_id_Inr: "map_sum id f x = Inr y \<longleftrightarrow> (\<exists>z. x = Inr z \<and> y = f z)"
  by (cases x) auto

lemma explain_Inr:
  assumes "explain m features samples = Inr result"
  obtains preprocessed raw where
    "is_ready m" and "is_explainable m" and
    "compute_shap_values m features samples = Inr (preprocessed, raw)" and
    "format_output m (index preprocessed) (feature_names m) raw = Inr result"
  using assms by (auto simp: explain_def check_def split: if_splits sum.splits prod.splits)

lemma compute_shap_values_Inr:
  assumes "compute_shap_values m features samples = Inr (preprocessed, raw)"
  obtains params predictor explainer input_data predictor_type where
    "preprocess m features = Inr preprocessed" and
    "explain_params m samples = Inr params" and
    "get_predictor m = Inr predictor" and
    "tree_explainer m predictor params = Inr explainer" and
    "select_columns (feature_names m) preprocessed = Inr input_data" and
    "get_predictor_type m = Inr predictor_type" and
    "explainer (explainer_input predictor_type input_data) = Inr raw"
  using assms by (auto simp: compute_shap_values_def split: sum.splits)

lemma compute_shap_values_iff:
  "compute_shap_values m features samples = Inr (preprocessed, raw) \<longleftrightarrow>
     (\<exists>chosen predictor explainer input_data.
        preprocess m features = Inr preprocessed \<and>
        explain_params m samples = Inr chosen \<and>
        get_predictor m = Inr predictor \<and>
        tree_explainer m predictor chosen = Inr explainer \<and>
        select_columns (feature_names m) preprocessed = Inr input_data \<and>
        explainer (explainer_input (type_name predictor) input_data) = Inr raw)"
  by (auto simp: compute_shap_values_def get_predictor_type_def split: sum.splits)

lemma get_class_names_Inr:
  assumes "get_class_names m = Inr names"
  obtains predictor cs where
    "is_ready m" and "is_classification m" and "get_predictor m = Inr predictor" and
    "classes_attr predictor = Some cs" and "names = class_strings cs"
  using assms
  by (auto simp: get_class_names_def check_def is_classification_def
           split: if_splits sum.splits option.splits)

lemma predict_proba_Inr:
  assumes "predict_proba m features = Inr result"
  obtains input prediction class_names df where
    "validate m features = Inr input" and
    "model_predict_proba m input = Inr prediction" and
    "get_class_names m = Inr class_names" and
    "DataFrame prediction (range_index (length prediction)) class_names = Inr df" and
    "result = to_dict_records df"
  using assms
  by (auto simp: predict_proba_def check_def split: if_splits sum.splits)

lemma format_classes_keys:
  assumes "distinct cols"
  shows "format_classes pr raw idx cols i cs acc = Inr res \<Longrightarrow>
    list_all (\<lambda>(c, recs). length recs = length idx \<and> keyed_by cols recs) acc \<Longrightarrow>
    list_all (\<lambda>(c, recs). length recs = length idx \<and> keyed_by cols recs) res"
proof (induction cs arbitrary: i acc)
  case Nil
  then show ?case by simp
next
  case (Cons c cs)
  from Cons.prems(1) obtain vals df where
    df: "DataFrame vals idx cols = Inr df" and
    rest: "format_classes pr raw idx cols (Suc i) cs
             (AList.update c (to_dict_records df) acc) = Inr res"
    by (auto split: sum.splits)
  from records_of_DataFrame [OF assms df] Cons.prems(2)
  have "list_all (\<lambda>(c, recs). length recs = length idx \<and> keyed_by cols recs)
          (AList.update c (to_dict_records df) acc)"
    by (intro list_all_update) simp_all
  from Cons.IH [OF rest this] show ?case .
qed

lemma format_classes_labels:
  "format_classes pr raw idx cols i cs acc = Inr res \<Longrightarrow>
   fst ` set res = set cs \<union> fst ` set acc"
proof (induction cs arbitrary: i acc)
  case Nil
  then show ?case by simp
next
  case (Cons c cs)
  from Cons.prems obtain recs where
    "format_classes pr raw idx cols (Suc i) cs (AList.update c recs acc) = Inr res"
    by (auto split: sum.splits)
  from Cons.IH [OF this] show ?case
    by (simp add: dom_update)
qed

subsection \<open>Inference operations\<close>

text \<open>
  Claim C3. \<^verbatim>\<open>predict\<close> returns what the estimator's \<^verbatim>\<open>predict\<close> returns and never
  reads the metadata. With no class names in the metadata and an estimator trained on the
  labels \<open>no\<close> and \<open>yes\<close>, the label returned is the string \<open>yes\<close>, not an integer;
  with class names in the metadata and an estimator that predicts numbers, the label
  returned is the number 1, not a declared name.
\<close>

theorem predict_returns_estimator_output:
  "predict (m\<lparr>metadata_class_names := names\<rparr>) features = predict m features
   \<and> metadata_class_names example_model = None
   \<and> predict example_model example_record = Inr [StrLabel ''yes'']
   \<and> metadata_class_names example_int_labels = Some [''no'', ''yes'']
   \<and> predict example_int_labels example_record = Inr [IntLabel 1]"
proof (intro conjI)
  show "predict (m\<lparr>metadata_class_names := names\<rparr>) features = predict m features"
    by (simp add: predict_def check_def split: sum.splits)
next
  show "metadata_class_names example_model = None"
    by (simp add: example_model_def)
next
  show "predict example_model example_record = Inr [StrLabel ''yes'']"
    by (simp add: predict_def check_def example_defs)
next
  show "metadata_class_names example_int_labels = Some [''no'', ''yes'']"
    by (simp add: example_int_labels_def)
next
  show "predict example_int_labels example_record = Inr [IntLabel 1]"
    by (simp add: predict_def check_def example_int_labels_def example_numeric_def
          example_defs)
qed

text \<open>
  Claim C4. A loaded classification model, a request that validates to a table of N
  rows, an estimator that returns N rows of one probability per class, and a base
  predictor with a class list of distinct labels: \<^verbatim>\<open>predict_proba\<close> returns N mappings,
  each keyed by exactly the class labels of the base predictor, in their order; the class
  names of the metadata have no part in the result.
\<close>

theorem predict_proba_keys:
  assumes "is_ready m"
    and "is_classification m"
    and "validate m features = Inr input"
    and "model_predict_proba m input = Inr prediction"
    and "length prediction = length (rows input)"
    and "extract_base_predictor (loaded_model m) = Inr predictor"
    and "classes_attr predictor = Some cs"
    and "distinct_classes cs"
    and "list_all (\<lambda>row. length row = length (class_strings cs)) prediction"
  shows "\<exists>result.
           predict_proba m features = Inr result \<and>
           length result = length (rows input) \<and>
           keyed_by (class_strings cs) result \<and>
           predict_proba (m\<lparr>metadata_class_names := other\<rparr>) features = Inr result"
proof -
  let ?names = "class_strings cs"
  let ?df = "\<lparr>index = range_index (length prediction), columns = ?names, rows = prediction\<rparr>"
  from assms(1,2,6,7) have names: "get_class_names m = Inr ?names"
    by (simp add: get_class_names_def get_predictor_def check_def is_classification_def)
  from assms(9) have df: "DataFrame prediction (range_index (length prediction)) ?names = Inr ?df"
    by (simp add: DataFrame_def range_index_def)
  from assms(1,2,3,4) names df have run: "predict_proba m features = Inr (to_dict_records ?df)"
    by (simp add: predict_proba_def check_def is_classification_def)
  have same: "predict_proba (m\<lparr>metadata_class_names := other\<rparr>) features =
      predict_proba m features"
    by (simp add: predict_proba_def check_def get_class_names_def get_predictor_def
          split: sum.splits)
  from distinct_class_strings [OF assms(8)] df
  have "length (to_dict_records ?df) = length (range_index (length prediction)) \<and>
        keyed_by ?names (to_dict_records ?df)"
    by (rule records_of_DataFrame)
  with run same assms(5) show ?thesis
    by (simp add: range_index_def)
qed

theorem predict_proba_keys_witness:
  "predict_proba example_model example_batch =
     Inr [[(''no'', 3 / 10), (''yes'', 7 / 10)], [(''no'', 3 / 10), (''yes'', 7 / 10)]]
   \<and> extract_base_predictor (loaded_model example_model) = Inr example_forest
   \<and> classes_attr example_forest = Some (StrClasses [''no'', ''yes''])
   \<and> predict_proba (example_model\<lparr>metadata_class_names := Some [''A'', ''B'']\<rparr>) example_batch =
       Inr [[(''no'', 3 / 10), (''yes'', 7 / 10)], [(''no'', 3 / 10), (''yes'', 7 / 10)]]"
proof -
  let ?input = "\<lparr>index = [0, 1], columns = example_schema,
                  rows = [[Num 30, Txt ''red''], [Num 41, Txt ''blue'']]\<rparr>"
  let ?prediction = "[[3 / 10, 7 / 10], [3 / 10, 7 / 10 :: real]]"
  have ready: "is_ready example_model" and cls: "is_classification example_model"
    by (simp_all add: example_model_def is_classification_def)
  have input: "validate example_model example_batch = Inr ?input"
    by (simp add: example_defs example_batch_def range_index_def)
  have prediction: "model_predict_proba example_model ?input = Inr ?prediction"
    by (simp add: example_defs)
  have rows: "length ?prediction = length (rows ?input)" by simp
  have base: "extract_base_predictor (loaded_model example_model) = Inr example_forest"
    by (simp add: example_defs extract_base_predictor.simps)
  have cs: "classes_attr example_forest = Some (StrClasses [''no'', ''yes''])"
    by (simp add: example_forest_def)
  have dist: "distinct_classes (StrClasses [''no'', ''yes''])" by simp
  have shape: "list_all (\<lambda>row. length row = length (class_strings (StrClasses [''no'', ''yes''])))
                 ?prediction"
    by simp
  have run: "predict_proba example_model example_batch =
     Inr [[(''no'', 3 / 10), (''yes'', 7 / 10)], [(''no'', 3 / 10), (''yes'', 7 / 10)]]"
    by (simp add: model_defs example_defs example_batch_def extract_base_predictor.simps)
  show ?thesis
    using predict_proba_keys [OF ready cls input prediction rows base cs dist shape,
        of "Some [''A'', ''B'']"] run base cs
    by simp
qed

text \<open>
  Claim C10. The class names are the string renderings of the base predictor's classes,
  numbers included; the mappings of \<^verbatim>\<open>predict_proba\<close> and the per-class result of
  \<^verbatim>\<open>explain\<close> have exactly these strings as keys.
\<close>

theorem class_labels_are_strings:
  assumes "get_predictor m = Inr predictor"
    and "classes_attr predictor = Some cs"
  shows "(is_classification m \<longrightarrow> get_class_names m = Inr (class_strings cs))
       \<and> (\<forall>ints. cs = IntClasses ints \<longrightarrow> class_strings cs = map str_of_int ints)
       \<and> (\<forall>result. predict_proba m features = Inr result \<longrightarrow>
             list_all (\<lambda>d. set (map fst d) = set (class_strings cs)) result)
       \<and> (\<forall>per_class. explain m features samples = Inr (PerClass per_class) \<longrightarrow>
             set (map fst per_class) = set (class_strings cs))"
proof (intro conjI allI impI)
  assume "is_classification m"
  with assms show "get_class_names m = Inr (class_strings cs)"
    by (auto simp: get_class_names_def get_predictor_def check_def is_classification_def
             split: if_splits)
next
  fix ints
  assume "cs = IntClasses ints"
  then show "class_strings cs = map str_of_int ints" by simp
next
  fix result
  assume "predict_proba m features = Inr result"
  then obtain prediction class_names df where
    names: "get_class_names m = Inr class_names" and
    df: "DataFrame prediction (range_index (length prediction)) class_names = Inr df" and
    res: "result = to_dict_records df"
    by (rule predict_proba_Inr)
  from names assms have "class_names = class_strings cs"
    by (auto elim!: get_class_names_Inr)
  with records_key_sets [OF df] res
  show "list_all (\<lambda>d. set (map fst d) = set (class_strings cs)) result"
    by simp
next
  fix per_class
  assume "explain m features samples = Inr (PerClass per_class)"
  then obtain preprocessed :: "cell frame" and raw where
    out: "format_output m (index preprocessed) (feature_names m) raw = Inr (PerClass per_class)"
    by (rule explain_Inr)
  then obtain class_names pr where
    names: "get_class_names m = Inr class_names" and
    loop: "format_classes pr raw (index preprocessed) (feature_names m) 0 class_names [] =
             Inr per_class"
    by (auto simp: format_output_def map_sum_id_Inr
             split: if_splits sum.splits shap_values.splits)
  from names assms have "class_names = class_strings cs"
    by (auto elim!: get_class_names_Inr)
  with format_classes_labels [OF loop]
  show "set (map fst per_class) = set (class_strings cs)"
    by simp
qed

theorem class_labels_are_strings_witness:
  "get_predictor example_numeric =
     Inr (Estimator ''XGBClassifier'' None None (Some (IntClasses [0, 1])))
   \<and> get_class_names example_numeric = Inr [''0'', ''1'']
   \<and> predict_proba example_numeric example_record = Inr [[(''0'', 3 / 10), (''1'', 7 / 10)]]
   \<and> explain example_numeric example_record None =
       Inr (PerClass [(''0'', [[(''age'', - (1 / 10)), (''color'', - (1 / 20))]]),
                      (''1'', [[(''age'', 1 / 10), (''color'', 1 / 20)]])])"
proof -
  let ?p = "Estimator ''XGBClassifier'' None None (Some (IntClasses [0, 1]))"
  have p: "get_predictor example_numeric = Inr ?p"
    by (simp add: model_defs example_numeric_def example_defs extract_base_predictor.simps)
  have cs: "classes_attr ?p = Some (IntClasses [0, 1])" by simp
  have cls: "is_classification example_numeric"
    by (simp add: example_numeric_def example_model_def is_classification_def)
  have strs: "class_strings (IntClasses [0, 1]) = [''0'', ''1'']"
    by (simp add: str_of_int_def str_of_nat.simps digit_char_def)
  have proba: "predict_proba example_numeric example_record =
      Inr [[(''0'', 3 / 10), (''1'', 7 / 10)]]"
    by (simp add: model_defs example_numeric_def example_defs extract_base_predictor.simps
          str_of_int_def str_of_nat.simps digit_char_def)
  have expl: "explain example_numeric example_record None =
       Inr (PerClass [(''0'', [[(''age'', - (1 / 10)), (''color'', - (1 / 20))]]),
                      (''1'', [[(''age'', 1 / 10), (''color'', 1 / 20)]])])"
    by (simp add: model_defs example_numeric_def example_defs extract_base_predictor.simps
          str_of_int_def str_of_nat.simps digit_char_def)
  show ?thesis
    using class_labels_are_strings [OF p cs, of example_record None] cls strs proba expl p
    by simp
qed

subsection \<open>The attribution engine\<close>

text \<open>
  Claim C7. Without a background sample the parameters are the margin output under the
  tree-path-dependent policy and no data, whatever the model. With a background sample
  they are the probability output under the independent policy, with the validated and
  preprocessed sample as data. The raw output of a call is exactly what the explainer
  built with these parameters returns on the input of the call, and a result of
  \<^verbatim>\<open>explain\<close> is that raw output, formatted.
\<close>

theorem explain_params_by_background:
  "explain_params m None =
     Inr \<lparr>data = None, feature_dependence = ''tree_path_dependent'', model_output = ''margin''\<rparr>
   \<and> (explain_params m (Some s) = Inr params \<longleftrightarrow>
        (\<exists>validated background.
           validate m s = Inr validated \<and>
           preprocess m (Table validated) = Inr background \<and>
           params = \<lparr>data = Some background, feature_dependence = ''independent'',
                     model_output = ''probability''\<rparr>))
   \<and> (compute_shap_values m features samples = Inr (preprocessed, raw) \<longleftrightarrow>
        (\<exists>chosen predictor explainer input_data.
           preprocess m features = Inr preprocessed \<and>
           explain_params m samples = Inr chosen \<and>
           (data chosen = None \<longleftrightarrow> samples = None) \<and>
           model_output chosen = (if samples = None then ''margin'' else ''probability'') \<and>
           feature_dependence chosen =
             (if samples = None then ''tree_path_dependent'' else ''independent'') \<and>
           get_predictor m = Inr predictor \<and>
           tree_explainer m predictor chosen = Inr explainer \<and>
           select_columns (feature_names m) preprocessed = Inr input_data \<and>
           explainer (explainer_input (type_name predictor) input_data) = Inr raw))
   \<and> (explain m features samples = Inr result \<longrightarrow>
        (\<exists>chosen predictor explainer table input_data attributions.
           explain_params m samples = Inr chosen \<and>
           get_predictor m = Inr predictor \<and>
           tree_explainer m predictor chosen = Inr explainer \<and>
           preprocess m features = Inr table \<and>
           select_columns (feature_names m) table = Inr input_data \<and>
           explainer (explainer_input (type_name predictor) input_data) = Inr attributions \<and>
           format_output m (index table) (feature_names m) attributions = Inr result))"
proof (intro conjI impI)
  show "explain_params m None =
     Inr \<lparr>data = None, feature_dependence = ''tree_path_dependent'', model_output = ''margin''\<rparr>"
    by (simp add: explain_params_def)
next
  show "explain_params m (Some s) = Inr params \<longleftrightarrow>
        (\<exists>validated background.
           validate m s = Inr validated \<and>
           preprocess m (Table validated) = Inr background \<and>
           params = \<lparr>data = Some background, feature_dependence = ''independent'',
                     model_output = ''probability''\<rparr>)"
    by (auto simp: explain_params_def split: sum.splits)
next
  have fields:
    "(data chosen = None \<longleftrightarrow> samples = None) \<and>
     model_output chosen = (if samples = None then ''margin'' else ''probability'') \<and>
     feature_dependence chosen =
       (if samples = None then ''tree_path_dependent'' else ''independent'')"
    if "explain_params m samples = Inr chosen" for chosen
    using that by (cases samples) (auto simp: explain_params_def split: sum.splits)
  show "compute_shap_values m features samples = Inr (preprocessed, raw) \<longleftrightarrow>
        (\<exists>chosen predictor explainer input_data.
           preprocess m features = Inr preprocessed \<and>
           explain_params m samples = Inr chosen \<and>
           (data chosen = None \<longleftrightarrow> samples = None) \<and>
           model_output chosen = (if samples = None then ''margin'' else ''probability'') \<and>
           feature_dependence chosen =
             (if samples = None then ''tree_path_dependent'' else ''independent'') \<and>
           get_predictor m = Inr predictor \<and>
           tree_explainer m predictor chosen = Inr explainer \<and>
           select_columns (feature_names m) preprocessed = Inr input_data \<and>
           explainer (explainer_input (type_name predictor) input_data) = Inr raw)"
    (is "?lhs \<longleftrightarrow> ?rhs")
  proof
    assume ?lhs
    then obtain chosen predictor explainer input_data where
      call: "preprocess m features = Inr preprocessed"
        "explain_params m samples = Inr chosen"
        "get_predictor m = Inr predictor"
        "tree_explainer m predictor chosen = Inr explainer"
        "select_columns (feature_names m) preprocessed = Inr input_data"
        "explainer (explainer_input (type_name predictor) input_data) = Inr raw"
      unfolding compute_shap_values_iff by blast
    from fields [OF call(2)] call show ?rhs
      by (intro exI [of _ chosen] exI [of _ predictor] exI [of _ explainer]
            exI [of _ input_data]) simp
  next
    assume ?rhs
    then show ?lhs
      unfolding compute_shap_values_iff by blast
  qed
next
  assume "explain m features samples = Inr result"
  then obtain table attributions where
    raw: "compute_shap_values m features samples = Inr (table, attributions)" and
    out: "format_output m (index table) (feature_names m) attributions = Inr result"
    by (rule explain_Inr)
  from raw obtain chosen predictor explainer input_data where
    "preprocess m features = Inr table"
    "explain_params m samples = Inr chosen"
    "get_predictor m = Inr predictor"
    "tree_explainer m predictor chosen = Inr explainer"
    "select_columns (feature_names m) table = Inr input_data"
    "explainer (explainer_input (type_name predictor) input_data) = Inr attributions"
    unfolding compute_shap_values_iff by blast
  with out show "\<exists>chosen predictor explainer table input_data attributions.
           explain_params m samples = Inr chosen \<and>
           get_predictor m = Inr predictor \<and>
           tree_explainer m predictor chosen = Inr explainer \<and>
           preprocess m features = Inr table \<and>
           select_columns (feature_names m) table = Inr input_data \<and>
           explainer (explainer_input (type_name predictor) input_data) = Inr attributions \<and>
           format_output m (index table) (feature_names m) attributions = Inr result"
    by (intro exI [of _ chosen] exI [of _ predictor] exI [of _ explainer]
          exI [of _ table] exI [of _ input_data] exI [of _ attributions]) simp
qed

theorem explain_params_by_background_witness:
  "explain_params example_two_outputs None =
     Inr \<lparr>data = None, feature_dependence = ''tree_path_dependent'', model_output = ''margin''\<rparr>
   \<and> explain_params example_two_outputs (Some example_batch) =
       Inr \<lparr>data = Some \<lparr>index = [0, 1], columns = example_schema,
                          rows = [[Num 30, Txt ''red''], [Num 41, Txt ''blue'']]\<rparr>,
            feature_dependence = ''independent'', model_output = ''probability''\<rparr>
   \<and> compute_shap_values example_two_outputs example_record None =
       Inr (\<lparr>index = [0], columns = example_schema, rows = [[Num 30, Txt ''red'']]\<rparr>,
            ShapArray [[1 / 10, 1 / 20]])
   \<and> compute_shap_values example_two_outputs example_record (Some example_batch) =
       Inr (\<lparr>index = [0], columns = example_schema, rows = [[Num 30, Txt ''red'']]\<rparr>,
            ShapArray [[1 / 5, 1 / 10]])
   \<and> explain example_two_outputs example_record (Some example_batch) =
       Inr (PerClass [(''no'', [[(''age'', - (1 / 5)), (''color'', - (1 / 10))]]),
                      (''yes'', [[(''age'', 1 / 5), (''color'', 1 / 10)]])])"
proof -
  let ?table = "\<lparr>index = [0], columns = example_schema, rows = [[Num 30, Txt ''red'']]\<rparr>"
  let ?background = "\<lparr>index = [0, 1], columns = example_schema,
                       rows = [[Num 30, Txt ''red''], [Num 41, Txt ''blue'']]\<rparr>"
  let ?params = "\<lparr>data = Some ?background, feature_dependence = ''independent'',
                   model_output = ''probability''\<rparr>"
  let ?explainer = "\<lambda>inp. Inr (ShapArray (map (\<lambda>_. [1 / 5, 1 / 10 :: real]) (input_rows inp)))
                        :: error + shap_values"
  have validated: "validate example_two_outputs example_batch = Inr ?background"
    by (simp add: example_two_outputs_def example_defs example_batch_def range_index_def)
  have background: "preprocess example_two_outputs (Table ?background) = Inr ?background"
    by (simp add: preprocess_def check_def example_two_outputs_def example_defs)
  have table: "preprocess example_two_outputs example_record = Inr ?table"
    by (simp add: preprocess_def check_def example_two_outputs_def example_defs)
  have predictor: "get_predictor example_two_outputs = Inr example_forest"
    by (simp add: get_predictor_def check_def example_two_outputs_def example_defs
          extract_base_predictor.simps)
  have built: "tree_explainer example_two_outputs example_forest ?params = Inr ?explainer"
    by (simp add: example_two_outputs_def example_defs)
  have columns: "select_columns (feature_names example_two_outputs) ?table = Inr ?table"
    by (simp add: select_columns_def example_two_outputs_def example_defs)
  have called: "?explainer (explainer_input (type_name example_forest) ?table) =
      Inr (ShapArray [[1 / 5, 1 / 10]])"
    by (simp add: explainer_input_def use_pandas_def example_defs)
  have margin: "compute_shap_values example_two_outputs example_record None =
      Inr (?table, ShapArray [[1 / 10, 1 / 20]])"
    by (simp add: model_defs example_two_outputs_def example_defs
          extract_base_predictor.simps)
  have run: "explain example_two_outputs example_record (Some example_batch) =
       Inr (PerClass [(''no'', [[(''age'', - (1 / 5)), (''color'', - (1 / 10))]]),
                      (''yes'', [[(''age'', 1 / 5), (''color'', 1 / 10)]])])"
    by (simp add: model_defs example_two_outputs_def example_defs example_batch_def
          extract_base_predictor.simps)
  have chosen: "explain_params example_two_outputs (Some example_batch) = Inr ?params"
    using explain_params_by_background
        [of example_two_outputs example_batch ?params example_record "Some example_batch"
           ?table "ShapArray [[1 / 5, 1 / 10]]"]
      validated background
    by blast
  have probability: "compute_shap_values example_two_outputs example_record
      (Some example_batch) = Inr (?table, ShapArray [[1 / 5, 1 / 10]])"
    using explain_params_by_background
        [of example_two_outputs example_batch ?params example_record "Some example_batch"
           ?table "ShapArray [[1 / 5, 1 / 10]]"]
      chosen table predictor built columns called
    by (auto simp del: One_nat_def)
  show ?thesis
    using explain_params_by_background [of example_two_outputs] chosen margin probability run
    by simp
qed

text \<open>
  Claim C9. The explainer gets the frame with its named columns when the type of the
  predictor names \<open>LGBMClassifier\<close> or \<open>LGBMRegressor\<close>, and the bare values
  otherwise; among the explainable families these two are the only ones that get the
  frame. A call that returned a raw output got it from the explainer on this input.
\<close>

theorem explainer_input_by_family:
  "explainer_input predictor_type input_data =
     (if str_in ''LGBMClassifier'' predictor_type \<or> str_in ''LGBMRegressor'' predictor_type
      then FrameInput input_data else ArrayInput (rows input_data))
   \<and> list_all (\<lambda>family. use_pandas family \<longleftrightarrow>
                  family = ''LGBMClassifier'' \<or> family = ''LGBMRegressor'')
        explainable_models
   \<and> (compute_shap_values m features samples = Inr (preprocessed, raw) \<longrightarrow>
        (\<exists>predictor params explainer input_data.
           get_predictor m = Inr predictor \<and>
           tree_explainer m predictor params = Inr explainer \<and>
           select_columns (feature_names m) preprocessed = Inr input_data \<and>
           explainer (explainer_input (type_name predictor) input_data) = Inr raw))"
proof (intro conjI impI)
  show "explainer_input predictor_type input_data =
     (if str_in ''LGBMClassifier'' predictor_type \<or> str_in ''LGBMRegressor'' predictor_type
      then FrameInput input_data else ArrayInput (rows input_data))"
    by (simp add: explainer_input_def use_pandas_def)
next
  show "list_all (\<lambda>family. use_pandas family \<longleftrightarrow>
                  family = ''LGBMClassifier'' \<or> family = ''LGBMRegressor'')
        explainable_models"
    by (simp add: explainable_models_def use_pandas_def)
next
  assume "compute_shap_values m features samples = Inr (preprocessed, raw)"
  then obtain params predictor explainer input_data predictor_type where
    call: "get_predictor m = Inr predictor" "tree_explainer m predictor params = Inr explainer"
      "select_columns (feature_names m) preprocessed = Inr input_data" and
    family: "get_predictor_type m = Inr predictor_type" and
    raw: "explainer (explainer_input predictor_type input_data) = Inr raw"
    by (rule compute_shap_values_Inr)
  from family call(1) have "predictor_type = type_name predictor"
    by (simp add: get_predictor_type_def)
  with call raw show "\<exists>predictor params explainer input_data.
           get_predictor m = Inr predictor \<and>
           tree_explainer m predictor params = Inr explainer \<and>
           select_columns (feature_names m) preprocessed = Inr input_data \<and>
           explainer (explainer_input (type_name predictor) input_data) = Inr raw"
    by blast
qed

theorem explainer_input_by_family_witness:
  "explainer_input ''LGBMClassifier''
       \<lparr>index = [0], columns = example_schema, rows = [[Num 30, Txt ''red'']]\<rparr> =
     FrameInput \<lparr>index = [0], columns = example_schema, rows = [[Num 30, Txt ''red'']]\<rparr>
   \<and> explainer_input ''RandomForestClassifier''
       \<lparr>index = [0], columns = example_schema, rows = [[Num 30, Txt ''red'']]\<rparr> =
     ArrayInput [[Num 30, Txt ''red'']]
   \<and> compute_shap_values example_lgbm example_record None =
       Inr (\<lparr>index = [0], columns = example_schema, rows = [[Num 30, Txt ''red'']]\<rparr>,
            ShapArray [[1 / 10, 1 / 20]])"
proof -
  let ?table = "\<lparr>index = [0], columns = example_schema, rows = [[Num 30, Txt ''red'']]\<rparr>"
  have run: "compute_shap_values example_lgbm example_record None =
       Inr (?table, ShapArray [[1 / 10, 1 / 20]])"
    by (simp add: model_defs example_lgbm_def example_defs extract_base_predictor.simps)
  show ?thesis
    using explainer_input_by_family
        [of "''LGBMClassifier''" ?table example_lgbm example_record None ?table
           "ShapArray [[1 / 10, 1 / 20]]"]
      explainer_input_by_family [of "''RandomForestClassifier''" ?table]
      run
    by simp
qed

text \<open>
  Claim C1. Binary classification, the raw output is one shared array (case (b)), the two
  class labels are \<open>c0\<close> and \<open>c1\<close>: the result has the two classes in this order, and
  every record of the first class is the record of the second class with every attribution
  negated. So for every record \<open>i\<close> and feature \<open>f\<close>, the value of \<open>f\<close> for \<open>c0\<close> is
  minus its value for \<open>c1\<close>. Attributions are real numbers here; negating a float is
  exact as well.
\<close>

theorem explain_binary_negation:
  assumes "explain m features samples = Inr result"
    and "compute_shap_values m features samples = Inr (preprocessed, ShapArray a)"
    and "get_class_names m = Inr [c0, c1]"
    and "c0 \<noteq> c1"
  shows "\<exists>recs0 recs1.
           result = PerClass [(c0, recs0), (c1, recs1)] \<and>
           recs0 = map (map (apsnd uminus)) recs1 \<and>
           length recs0 = length recs1 \<and>
           (\<forall>i<length recs1. \<forall>f.
              map_of (recs0 ! i) f = map_option uminus (map_of (recs1 ! i) f))"
proof -
  let ?idx = "index preprocessed" and ?cols = "feature_names m"
  from assms(1,2) have out: "format_output m ?idx ?cols (ShapArray a) = Inr result"
    by (auto elim!: explain_Inr)
  from assms(3) have cls: "is_classification m"
    by (rule get_class_names_Inr)
  from out cls assms(3) obtain per_class where
    loop: "format_classes True (ShapArray a) ?idx ?cols 0 [c0, c1] [] = Inr per_class" and
    res: "result = PerClass per_class"
    by (auto simp: format_output_def map_sum_id_Inr split: if_splits)
  from loop obtain df0 df1 where
    df0: "DataFrame (array_times a (- 1)) ?idx ?cols = Inr df0" and
    df1: "DataFrame (array_times a 1) ?idx ?cols = Inr df1" and
    pc: "per_class =
           AList.update c1 (to_dict_records df1) (AList.update c0 (to_dict_records df0) [])"
    by (auto split: sum.splits)
  let ?recs = "to_dict_records \<lparr>index = ?idx, columns = ?cols, rows = a\<rparr>"
  from DataFrame_Inr [OF df0] have r0: "to_dict_records df0 = map (map (apsnd uminus)) ?recs"
    by (simp add: records_array_times)
  from DataFrame_Inr [OF df1] have r1: "to_dict_records df1 = ?recs"
    by (simp add: array_times_one)
  from pc assms(4) have pc: "per_class = [(c0, to_dict_records df0), (c1, to_dict_records df1)]"
    by simp
  have look: "map_of (map (apsnd uminus) d) f = map_option uminus (map_of d f)"
    for d :: "(string \<times> real) list" and f
    by (induction d) auto
  show ?thesis
    using res pc r0 r1 look by simp
qed

theorem explain_binary_negation_witness:
  "explain example_model example_record None =
     Inr (PerClass [(''no'', [[(''age'', - (1 / 10)), (''color'', - (1 / 20))]]),
                    (''yes'', [[(''age'', 1 / 10), (''color'', 1 / 20)]])])
   \<and> get_class_names example_model = Inr [''no'', ''yes'']
   \<and> [[(''age'', - (1 / 10)), (''color'', - (1 / 20 :: real))]] =
       map (map (apsnd uminus)) [[(''age'', 1 / 10), (''color'', 1 / 20)]]"
proof -
  let ?pre = "\<lparr>index = [0], columns = example_schema, rows = [[Num 30, Txt ''red'']]\<rparr>"
  have run: "explain example_model example_record None =
     Inr (PerClass [(''no'', [[(''age'', - (1 / 10)), (''color'', - (1 / 20))]]),
                    (''yes'', [[(''age'', 1 / 10), (''color'', 1 / 20)]])])"
    by (simp add: model_defs example_defs extract_base_predictor.simps)
  have raw: "compute_shap_values example_model example_record None =
     Inr (?pre, ShapArray [[1 / 10, 1 / 20]])"
    by (simp add: model_defs example_defs extract_base_predictor.simps)
  have names: "get_class_names example_model = Inr [''no'', ''yes'']"
    by (simp add: model_defs example_defs extract_base_predictor.simps)
  have diff: "''no'' \<noteq> ''yes''" by simp
  show ?thesis
    using explain_binary_negation [OF run raw names diff] run names by simp
qed

text \<open>
  Claim C2, amended. Classification, the explainer has returned \<open>raw\<close> and the class
  names are there: when \<open>raw\<close> is not a Python list, and is not an array while the
  binary-classification flag of the model is set, then \<^verbatim>\<open>explain\<close> fails with the
  \<open>ValueError\<close> of line 215, so there is no result. A list passes by its type alone,
  whatever the number of arrays in it.
\<close>

theorem explain_unknown_shape:
  assumes "is_explainable m"
    and "is_classification m"
    and "compute_shap_values m features samples = Inr (preprocessed, raw)"
    and "get_class_names m = Inr class_names"
    and "\<not> isinstance_list raw"
    and "\<not> (isinstance_ndarray raw \<and> is_binary_classification m)"
  shows "explain m features samples =
           Inl (ValueError ''Unknown objet class for shap_values variable'')"
proof -
  from assms(4) have "is_ready m"
    by (rule get_class_names_Inr)
  with assms(1,3) have "explain m features samples =
      format_output m (index preprocessed) (feature_names m) raw"
    by (simp add: explain_def check_def)
  also from assms(2,4,5,6) have "\<dots> =
      Inl (ValueError ''Unknown objet class for shap_values variable'')"
    by (auto simp: format_output_def)
  finally show ?thesis .
qed

theorem explain_unknown_shape_witness:
  "compute_shap_values example_multiclass example_record None =
     Inr (\<lparr>index = [0], columns = example_schema, rows = [[Num 30, Txt ''red'']]\<rparr>,
          ShapArray [[1 / 10, 1 / 20]])
   \<and> get_class_names example_multiclass = Inr [''0'', ''1'', ''2'']
   \<and> \<not> is_binary_classification example_multiclass
   \<and> explain example_multiclass example_record None =
       Inl (ValueError ''Unknown objet class for shap_values variable'')"
proof -
  have ex: "is_explainable example_multiclass" and cls: "is_classification example_multiclass"
    and nb: "\<not> is_binary_classification example_multiclass"
    by (simp_all add: example_multiclass_def example_model_def is_classification_def)
  have raw: "compute_shap_values example_multiclass example_record None =
     Inr (\<lparr>index = [0], columns = example_schema, rows = [[Num 30, Txt ''red'']]\<rparr>,
          ShapArray [[1 / 10, 1 / 20]])"
    by (simp add: model_defs example_multiclass_def example_defs
          extract_base_predictor.simps)
  have names: "get_class_names example_multiclass = Inr [''0'', ''1'', ''2'']"
    by (simp add: model_defs example_multiclass_def example_defs
          extract_base_predictor.simps str_of_int_def str_of_nat.simps digit_char_def)
  have nl: "\<not> isinstance_list (ShapArray [[1 / 10, 1 / 20]])" by simp
  show ?thesis
    using explain_unknown_shape [OF ex cls raw names nl] raw names nb by simp
qed

text \<open>
  The claim as it was stated fails on a list that is not one array per class. For the two
  classes \<open>no\<close> and \<open>yes\<close>, a list of one array ends in the \<open>IndexError\<close> of
  \<^verbatim>\<open>shap_values[1]\<close>, not in the error of line 215, and a list of three arrays gives a
  result, made of the first two.
\<close>

theorem explain_unknown_shape_counterexample:
  "get_class_names example_short_list = Inr [''no'', ''yes'']
   \<and> compute_shap_values example_short_list example_record None =
       Inr (\<lparr>index = [0], columns = example_schema, rows = [[Num 30, Txt ''red'']]\<rparr>,
            ShapList [[[1 / 10, 1 / 20]]])
   \<and> explain example_short_list example_record None = Inl IndexError
   \<and> get_class_names example_long_list = Inr [''no'', ''yes'']
   \<and> compute_shap_values example_long_list example_record None =
       Inr (\<lparr>index = [0], columns = example_schema, rows = [[Num 30, Txt ''red'']]\<rparr>,
            ShapList [[[- (1 / 10), - (1 / 20)]], [[1 / 10, 1 / 20]], [[7, 9]]])
   \<and> explain example_long_list example_record None =
       Inr (PerClass [(''no'', [[(''age'', - (1 / 10)), (''color'', - (1 / 20))]]),
                      (''yes'', [[(''age'', 1 / 10), (''color'', 1 / 20)]])])"
proof (intro conjI)
  show "get_class_names example_short_list = Inr [''no'', ''yes'']"
    by (simp add: model_defs example_short_list_def example_defs extract_base_predictor.simps)
next
  show "compute_shap_values example_short_list example_record None =
       Inr (\<lparr>index = [0], columns = example_schema, rows = [[Num 30, Txt ''red'']]\<rparr>,
            ShapList [[[1 / 10, 1 / 20]]])"
    by (simp add: model_defs example_short_list_def example_defs extract_base_predictor.simps)
next
  show "explain example_short_list example_record None = Inl IndexError"
    by (simp add: model_defs example_short_list_def example_defs extract_base_predictor.simps)
next
  show "get_class_names example_long_list = Inr [''no'', ''yes'']"
    by (simp add: model_defs example_long_list_def example_defs extract_base_predictor.simps)
next
  show "compute_shap_values example_long_list example_record None =
       Inr (\<lparr>index = [0], columns = example_schema, rows = [[Num 30, Txt ''red'']]\<rparr>,
            ShapList [[[- (1 / 10), - (1 / 20)]], [[1 / 10, 1 / 20]], [[7, 9]]])"
    by (simp add: model_defs example_long_list_def example_defs extract_base_predictor.simps)
next
  show "explain example_long_list example_record None =
       Inr (PerClass [(''no'', [[(''age'', - (1 / 10)), (''color'', - (1 / 20))]]),
                      (''yes'', [[(''age'', 1 / 10), (''color'', 1 / 20)]])])"
    by (simp add: model_defs example_long_list_def example_defs extract_base_predictor.simps)
qed

text \<open>
  Claim C8. The feature names of the schema are distinct. Then every mapping of a result
  of \<^verbatim>\<open>explain\<close>, for regression and under every class for classification, has exactly
  the feature names as keys, in the order of the schema, and every sequence has one
  mapping per row of the preprocessed table: one mapping for one record.
\<close>

theorem explain_keys_are_feature_names:
  assumes "distinct (feature_names m)"
    and "explain m features samples = Inr result"
  shows "\<exists>preprocessed. preprocess m features = Inr preprocessed \<and>
     (case result of
        PerRecord recs \<Rightarrow>
          length recs = length (index preprocessed) \<and> keyed_by (feature_names m) recs
      | PerClass per_class \<Rightarrow>
          list_all (\<lambda>(c, recs). length recs = length (index preprocessed) \<and>
                      keyed_by (feature_names m) recs) per_class)"
proof -
  from assms(2) obtain preprocessed raw where
    raw: "compute_shap_values m features samples = Inr (preprocessed, raw)" and
    out: "format_output m (index preprocessed) (feature_names m) raw = Inr result"
    by (rule explain_Inr)
  from raw have pre: "preprocess m features = Inr preprocessed"
    by (rule compute_shap_values_Inr)
  let ?idx = "index preprocessed" and ?cols = "feature_names m"
  let ?ok = "\<lambda>(c :: string, recs :: (string \<times> real) list list).
               length recs = length ?idx \<and> keyed_by ?cols recs"
  have "case result of
        PerRecord recs \<Rightarrow> length recs = length ?idx \<and> keyed_by ?cols recs
      | PerClass per_class \<Rightarrow> list_all ?ok per_class"
  proof (cases "is_classification m")
    case True
    with out obtain class_names pr per_class where
      loop: "format_classes pr raw ?idx ?cols 0 class_names [] = Inr per_class" and
      res: "result = PerClass per_class"
      by (auto simp: format_output_def map_sum_id_Inr split: sum.splits if_splits)
    have "list_all ?ok per_class"
      using format_classes_keys [OF assms(1) loop] by simp
    with res show ?thesis by simp
  next
    case False
    with out obtain a df where
      df: "DataFrame a ?idx ?cols = Inr df" and
      res: "result = PerRecord (to_dict_records df)"
      by (auto simp: format_output_def map_sum_id_Inr split: shap_values.splits sum.splits)
    from records_of_DataFrame [OF assms(1) df] res show ?thesis by simp
  qed
  with pre show ?thesis by blast
qed

theorem explain_keys_are_feature_names_witness:
  "distinct (feature_names example_regressor)
   \<and> preprocess example_regressor example_record =
       Inr \<lparr>index = [0], columns = example_schema, rows = [[Num 30, Txt ''red'']]\<rparr>
   \<and> explain example_regressor example_record None =
       Inr (PerRecord [[(''age'', 1 / 10), (''color'', 1 / 20)]])
   \<and> keyed_by (feature_names example_regressor) [[(''age'', 1 / 10 :: real), (''color'', 1 / 20)]]"
proof -
  have d: "distinct (feature_names example_regressor)"
    by (simp add: example_regressor_def example_defs)
  have pre: "preprocess example_regressor example_record =
       Inr \<lparr>index = [0], columns = example_schema, rows = [[Num 30, Txt ''red'']]\<rparr>"
    by (simp add: model_defs example_regressor_def example_defs)
  have run: "explain example_regressor example_record None =
       Inr (PerRecord [[(''age'', 1 / 10), (''color'', 1 / 20)]])"
    by (simp add: model_defs example_regressor_def example_defs extract_base_predictor.simps)
  show ?thesis
    using explain_keys_are_feature_names [OF d run] d pre run by simp
qed

end
